theory Spec2Isabelle
  imports Main "HOL-Library.Word"
begin

unbundle bit_operations_syntax

section \<open>JavaScript values thrown and caught\<close>

text \<open>
  A value thrown by the program or by a library it calls. \<open>ErrorObj name message\<close> is an
  instance of \<open>Error\<close> (\<open>new Error(m)\<close> is \<open>ErrorObj ''Error'' m\<close>, a failed
  \<open>JSON.parse\<close> is \<open>ErrorObj ''SyntaxError'' m\<close>); \<open>NonError s\<close> is any other thrown
  value, given by its string conversion.
\<close>

datatype thrown = ErrorObj string string | NonError string

definition new_Error :: "string \<Rightarrow> thrown" where
  "new_Error m = ErrorObj ''Error'' m"

text \<open>\<open>(err as Error).message\<close>; \<open>undefined\<close> (here \<open>None\<close>) on a value that is no Error.\<close>

fun message :: "thrown \<Rightarrow> string option" where
  "message (ErrorObj n m) = Some m"
| "message (NonError s) = None"

text \<open>String conversion, as \<open>'...' + error\<close> performs it (\<open>Error.prototype.toString\<close>).\<close>

fun thrown_toString :: "thrown \<Rightarrow> string" where
  "thrown_toString (ErrorObj n m) =
     (if n = [] then m else if m = [] then n else n @ '': '' @ m)"
| "thrown_toString (NonError s) = s"

section \<open>PKCE material\<close>

subsection \<open>Hexadecimal rendering and version-4 UUIDs\<close>

definition hex_digits :: string where
  "hex_digits = ''0123456789abcdef''"

text \<open>Two lower-case hexadecimal digits for one byte.\<close>

definition byte_to_hex :: "8 word \<Rightarrow> string" where
  "byte_to_hex b = [hex_digits ! (unat b div 16), hex_digits ! (unat b mod 16)]"

text \<open>\<open>Buffer.toString('hex')\<close>.\<close>

definition toString_hex :: "8 word list \<Rightarrow> string" where
  "toString_hex bs = concat (map byte_to_hex bs)"

text \<open>
  \<open>uuidv4()\<close> of the uuid package: sixteen bytes from the random number generator
  (\<open>rnds i\<close> is byte \<open>i\<close> of them), the version and variant bits set in bytes 6 and 8,
  rendered as 8-4-4-4-12 hexadecimal digits.
\<close>

definition uuidv4 :: "(nat \<Rightarrow> 8 word) \<Rightarrow> string" where
  "uuidv4 rnds =
     (let b = (\<lambda>i. if i = 6 then (rnds 6 AND 0x0f) OR 0x40
                    else if i = 8 then (rnds 8 AND 0x3f) OR 0x80
                    else rnds i)
      in toString_hex (map b [0, 1, 2, 3]) @ ''-''
         @ toString_hex (map b [4, 5]) @ ''-''
         @ toString_hex (map b [6, 7]) @ ''-''
         @ toString_hex (map b [8, 9]) @ ''-''
         @ toString_hex (map b [10, 11, 12, 13, 14, 15]))"

subsection \<open>Base64\<close>

definition base64_alphabet :: string where
  "base64_alphabet =
     ''ABCDEFGHIJKLMNOPQRSTUVWXYZabcdefghijklmnopqrstuvwxyz0123456789+/''"

definition base64url_alphabet :: string where
  "base64url_alphabet =
     ''ABCDEFGHIJKLMNOPQRSTUVWXYZabcdefghijklmnopqrstuvwxyz0123456789-_''"

text \<open>The four 6-bit groups of three bytes (absent bytes count as zero).\<close>

definition sextets :: "8 word \<Rightarrow> 8 word \<Rightarrow> 8 word \<Rightarrow> nat list" where
  "sextets a b c =
     [unat a div 4,
      (unat a mod 4) * 16 + unat b div 16,
      (unat b mod 16) * 4 + unat c div 64,
      unat c mod 64]"

text \<open>\<open>digest('base64')\<close>: the standard alphabet, padded with \<open>=\<close> to a multiple of four.\<close>

fun base64 :: "8 word list \<Rightarrow> string" where
  "base64 (a # b # c # rest) = map ((!) base64_alphabet) (sextets a b c) @ base64 rest"
| "base64 [a, b] = map ((!) base64_alphabet) (take 3 (sextets a b 0)) @ ''=''"
| "base64 [a] = map ((!) base64_alphabet) (take 2 (sextets a 0 0)) @ ''==''"
| "base64 [] = []"

text \<open>
  The encoding the specification names: base64url without padding (the URL-safe
  alphabet, no \<open>=\<close>), written independently of \<open>base64\<close>.
\<close>

fun base64url_nopad :: "8 word list \<Rightarrow> string" where
  "base64url_nopad (a # b # c # rest) =
     map ((!) base64url_alphabet) (sextets a b c) @ base64url_nopad rest"
| "base64url_nopad [a, b] = map ((!) base64url_alphabet) (take 3 (sextets a b 0))"
| "base64url_nopad [a] = map ((!) base64url_alphabet) (take 2 (sextets a 0 0))"
| "base64url_nopad [] = []"

text \<open>
  The fixed S256 transform of the specification: challenge = base64url-no-padding of
  SHA-256 of the verifier. The hash is Node's \<open>crypto.createHash('sha256')\<close>, a
  parameter \<open>sha256\<close> of everything that uses it.
\<close>

definition S256 :: "(string \<Rightarrow> 8 word list) \<Rightarrow> string \<Rightarrow> string" where
  "S256 sha256 v = base64url_nopad (sha256 v)"

subsection \<open>generatePkce\<close>

text \<open>\<open>s.replace(/p/g, r)\<close> for a one-character pattern \<open>p\<close>.\<close>

definition replace_all :: "char \<Rightarrow> string \<Rightarrow> string \<Rightarrow> string" where
  "replace_all p r s = concat (map (\<lambda>c. if c = p then r else [c]) s)"

record pkce =
  verifier :: string
  challenge :: string

text \<open>
  \<open>generatePkce\<close>: the verifier is three UUIDs side by side, the challenge the base64
  digest with \<open>+\<close>, \<open>/\<close> and \<open>=\<close> rewritten. \<open>r1\<close>, \<open>r2\<close>, \<open>r3\<close> are the random bytes
  the three \<open>uuidv4()\<close> calls draw.
\<close>

definition generatePkce ::
  "(string \<Rightarrow> 8 word list) \<Rightarrow> (nat \<Rightarrow> 8 word) \<Rightarrow> (nat \<Rightarrow> 8 word) \<Rightarrow> (nat \<Rightarrow> 8 word) \<Rightarrow> pkce" where
  "generatePkce sha256 r1 r2 r3 =
     (let verifier = uuidv4 r1 @ uuidv4 r2 @ uuidv4 r3;
          challenge =
            replace_all CHR ''='' []
              (replace_all CHR ''/'' ''_''
                (replace_all CHR ''+'' ''-'' (base64 (sha256 verifier))))
      in \<lparr>verifier = verifier, challenge = challenge\<rparr>)"

text \<open>The unreserved characters of RFC 3986, which PKCE verifiers are drawn from.\<close>

definition unreserved :: "char \<Rightarrow> bool" where
  "unreserved c \<longleftrightarrow>
     c \<in> set (''ABCDEFGHIJKLMNOPQRSTUVWXYZabcdefghijklmnopqrstuvwxyz0123456789'' @ ''-._~'')"

section \<open>The authorization provider\<close>

subsection \<open>Data\<close>

text \<open>
  The registered client (\<open>OAuthClientInformationFull\<close>): the fields the provider reads;
  the rest of the metadata is the record's extension.
\<close>

record OAuthClientInformationFull =
  client_id :: string
  redirect_uris :: "string list"

text \<open>The fields of \<open>AuthorizationParams\<close> that \<open>authorize\<close> reads; \<open>state\<close> is optional.\<close>

record AuthorizationParams =
  param_state :: "string option"
  codeChallenge :: "string option"

text \<open>
  \<open>SessionData\<close>, as \<open>authorize\<close> fills it. \<open>redirectUri\<close> is \<open>redirect_uris[0]\<close>,
  which is \<open>undefined\<close> (\<open>None\<close>) for a client with no redirect URI.
\<close>

record SessionData =
  clientId :: string
  state :: string
  codeVerifier :: string
  redirectUri :: "string option"
  originalState :: "string option"
  clientCodeChallenge :: "string option"
  clientCodeChallengeMethod :: string

text \<open>The options object the provider hands to the installer's \<open>generateInstallUrl\<close>.\<close>

record InstallURLOptions =
  scopes :: "string list"
  install_redirectUri :: "string option"

text \<open>
  The \<open>state\<close> entry of an incoming request's query: absent, a string, or another
  value (an array or a nested object, which the query parser produces for repeated or
  bracketed parameters).
\<close>

datatype query_value = QUndefined | QString string | QOther

record Request =
  query_state :: query_value

text \<open>
  What the provider did to the world outside its two Maps, oldest first: the calls of
  \<open>console.error\<close> and of the installer. Informational \<open>console.log\<close> lines are left
  out.
\<close>

datatype effect =
    Console_error string thrown
  | GenerateInstallUrl InstallURLOptions
  | Installer_handleCallback Request

text \<open>
  The provider's two Maps, the file \<open>registered_clients.json\<close> (\<open>None\<close> when it does
  not exist) and the effects so far. The constructor leaves both Maps empty and does
  not touch the file: it does not call the loader, and no other code does.
\<close>

record provider_state =
  clientsMap :: "string \<rightharpoonup> OAuthClientInformationFull"
  sessionStore :: "string \<rightharpoonup> SessionData"
  clientsFile :: "string option"
  effects :: "effect list"

definition constructed :: "string option \<Rightarrow> provider_state" where
  "constructed file =
     \<lparr>clientsMap = Map.empty, sessionStore = Map.empty, clientsFile = file, effects = []\<rparr>"

definition console_error :: "string \<Rightarrow> thrown \<Rightarrow> provider_state \<Rightarrow> provider_state" where
  "console_error label err st = st\<lparr>effects := effects st @ [Console_error label err]\<rparr>"

subsection \<open>Session store\<close>

definition storeSessionData ::
  "string \<Rightarrow> SessionData \<Rightarrow> provider_state \<Rightarrow> thrown + provider_state" where
  "storeSessionData s data st =
     (if s = [] then Inl (new_Error ''Cannot store session data: state parameter is missing'')
      else Inr (st\<lparr>sessionStore := (sessionStore st)(s \<mapsto> data)\<rparr>))"

definition getSessionData :: "string \<Rightarrow> provider_state \<Rightarrow> SessionData option" where
  "getSessionData s st = sessionStore st s"

definition clearSessionData :: "string \<Rightarrow> provider_state \<Rightarrow> provider_state" where
  "clearSessionData s st = st\<lparr>sessionStore := (sessionStore st)(s := None)\<rparr>"

subsection \<open>Client registry and its file\<close>

text \<open>
  The value \<open>JSON.parse\<close> returns, as the loop over \<open>Object.entries\<close> sees it: \<open>null\<close>,
  on which \<open>Object.entries\<close> throws a TypeError, or a value with the given own
  enumerable entries, each value taken as a client record as the code's unchecked cast
  takes it. \<open>JSON.parse\<close> and \<open>JSON.stringify\<close> are built into the runtime and are
  parameters of the functions that call them.
\<close>

datatype parsed = Parsed_null | Parsed_entries "(string \<times> OAuthClientInformationFull) list"

definition Object_entries ::
  "parsed \<Rightarrow> thrown + (string \<times> OAuthClientInformationFull) list" where
  "Object_entries v =
     (case v of
        Parsed_null \<Rightarrow> Inl (ErrorObj ''TypeError'' ''Cannot convert undefined or null to object'')
      | Parsed_entries es \<Rightarrow> Inr es)"

text \<open>The \<open>catch\<close> block of the load: everything but "File not found" is logged.\<close>

definition load_catch :: "thrown \<Rightarrow> provider_state \<Rightarrow> provider_state" where
  "load_catch err st =
     (if message err \<noteq> Some ''File not found''
      then console_error ''Error loading clients from file:'' err st else st)"

text \<open>
  \<open>_loadClientsFromFile\<close>. \<open>fs.access\<close> rejects when the file does not exist, and the
  rejection is replaced by \<open>Error('File not found')\<close>; a file that exists is taken to
  be readable, and its text is parsed. The promise the function returns is resolved on
  every path (\<open>Inr ()\<close>): the \<open>catch\<close> block throws nothing.
\<close>

definition loadClientsFromFile ::
  "(string \<Rightarrow> thrown + parsed) \<Rightarrow> provider_state \<Rightarrow> (thrown + unit) \<times> provider_state" where
  "loadClientsFromFile JSON_parse st =
     (case clientsFile st of
        None \<Rightarrow> (Inr (), load_catch (new_Error ''File not found'') st)
      | Some fileContent \<Rightarrow>
          (case JSON_parse fileContent of
             Inl err \<Rightarrow> (Inr (), load_catch err st)
           | Inr clientsData \<Rightarrow>
               (let st1 = st\<lparr>clientsMap := Map.empty\<rparr> in
                case Object_entries clientsData of
                  Inl err \<Rightarrow> (Inr (), load_catch err st1)
                | Inr es \<Rightarrow>
                    (Inr (),
                     st1\<lparr>clientsMap :=
                           fold (\<lambda>(clientId, clientData) m. m(clientId \<mapsto> clientData)) es
                             (clientsMap st1)\<rparr>))))"

text \<open>
  How one call of \<open>fs.writeFile(path, data)\<close> ends. The file is opened for writing,
  which creates or truncates it, and the data are then written into it: the call
  completes, or fails before the file is opened, or fails (or the process stops) after
  the file was truncated and some prefix of the data written.
\<close>

datatype write_outcome = Write_completes | Open_fails thrown | Write_interrupted nat thrown

definition fs_writeFile ::
  "write_outcome \<Rightarrow> string \<Rightarrow> string option \<Rightarrow> (thrown + unit) \<times> string option" where
  "fs_writeFile outcome data file =
     (case outcome of
        Write_completes \<Rightarrow> (Inr (), Some data)
      | Open_fails err \<Rightarrow> (Inl err, file)
      | Write_interrupted n err \<Rightarrow> (Inl err, Some (take n data)))"

text \<open>
  \<open>_saveClientsToFile\<close>: the whole Map is serialised and written over the file in
  place; an error is logged and thrown again.
\<close>

definition saveClientsToFile ::
  "((string \<rightharpoonup> OAuthClientInformationFull) \<Rightarrow> string) \<Rightarrow> write_outcome \<Rightarrow> provider_state
     \<Rightarrow> (thrown + unit) \<times> provider_state" where
  "saveClientsToFile JSON_stringify outcome st =
     (case fs_writeFile outcome (JSON_stringify (clientsMap st)) (clientsFile st) of
        (Inr u, file) \<Rightarrow> (Inr (), st\<lparr>clientsFile := file\<rparr>)
      | (Inl err, file) \<Rightarrow>
          (Inl err, console_error ''Error saving clients to file:'' err (st\<lparr>clientsFile := file\<rparr>)))"

text \<open>
  The clients store: \<open>getClient\<close> and \<open>registerClient\<close>. The code starts the save
  without awaiting it and logs its failure when it comes; here the save has run to its
  end when \<open>registerClient\<close> returns.
\<close>

definition getClient :: "string \<Rightarrow> provider_state \<Rightarrow> OAuthClientInformationFull option" where
  "getClient cid st = clientsMap st cid"

definition registerClient ::
  "((string \<rightharpoonup> OAuthClientInformationFull) \<Rightarrow> string) \<Rightarrow> write_outcome
     \<Rightarrow> OAuthClientInformationFull \<Rightarrow> provider_state
     \<Rightarrow> OAuthClientInformationFull \<times> provider_state" where
  "registerClient JSON_stringify outcome client st =
     (let st1 = st\<lparr>clientsMap := (clientsMap st)(client_id client \<mapsto> client)\<rparr> in
      case saveClientsToFile JSON_stringify outcome st1 of
        (Inr u, st2) \<Rightarrow> (client, st2)
      | (Inl err, st2) \<Rightarrow> (client, console_error ''Failed to save client registration:'' err st2))"

subsection \<open>authorize\<close>

text \<open>What was sent on the response object: a redirect, or a status with a body.\<close>

datatype response = Redirect string | Status_send nat string

text \<open>\<open>crypto.randomBytes(n).toString('hex')\<close>; \<open>rnd i\<close> is byte \<open>i\<close> of the buffer.\<close>

definition randomBytes_hex :: "(nat \<Rightarrow> 8 word) \<Rightarrow> nat \<Rightarrow> string" where
  "randomBytes_hex rnd n = toString_hex (map rnd [0..<n])"

text \<open>The \<open>catch\<close> block of \<open>authorize\<close>.\<close>

definition authorize_catch :: "thrown \<Rightarrow> provider_state \<Rightarrow> provider_state \<times> response" where
  "authorize_catch err st =
     (console_error ''Authorization setup error:'' err st,
      Status_send 500 (''Failed to initialize authentication: '' @ thrown_toString err))"

text \<open>
  \<open>authorize\<close>. \<open>generateInstallUrl\<close> is the installer's method (of the Slack OAuth
  package), a parameter; it is called with an options object of two fields. \<open>r1\<close>,
  \<open>r2\<close>, \<open>r3\<close> and \<open>rnd\<close> are the random bytes drawn for the PKCE pair and for the
  state. The session is stored before the installer is asked for the URL.
\<close>

definition authorize ::
  "(InstallURLOptions \<Rightarrow> thrown + string) \<Rightarrow> (string \<Rightarrow> 8 word list)
     \<Rightarrow> (nat \<Rightarrow> 8 word) \<Rightarrow> (nat \<Rightarrow> 8 word) \<Rightarrow> (nat \<Rightarrow> 8 word) \<Rightarrow> (nat \<Rightarrow> 8 word)
     \<Rightarrow> OAuthClientInformationFull \<Rightarrow> AuthorizationParams \<Rightarrow> provider_state
     \<Rightarrow> provider_state \<times> response" where
  "authorize generateInstallUrl sha256 r1 r2 r3 rnd client params st =
     (let uri = (case redirect_uris client of [] \<Rightarrow> None | u # us \<Rightarrow> Some u);
          pkce = generatePkce sha256 r1 r2 r3;
          s = randomBytes_hex rnd 32;
          sessionData =
            \<lparr>clientId = client_id client, state = s, codeVerifier = verifier pkce,
             redirectUri = uri, originalState = param_state params,
             clientCodeChallenge = codeChallenge params,
             clientCodeChallengeMethod = ''S256''\<rparr>
      in case storeSessionData s sessionData st of
           Inl err \<Rightarrow> authorize_catch err st
         | Inr st1 \<Rightarrow>
             (let opts = \<lparr>scopes = [''chat:write''], install_redirectUri = uri\<rparr>;
                  st2 = st1\<lparr>effects := effects st1 @ [GenerateInstallUrl opts]\<rparr>
              in case generateInstallUrl opts of
                   Inl err \<Rightarrow> authorize_catch err st2
                 | Inr authUrl \<Rightarrow> (st2, Redirect authUrl)))"

subsection \<open>The operations that are not implemented\<close>

record OAuthTokens =
  access_token :: string
  token_type :: string

definition challengeForAuthorizationCode ::
  "OAuthClientInformationFull \<Rightarrow> string \<Rightarrow> thrown + string" where
  "challengeForAuthorizationCode client authorizationCode =
     Inl (new_Error ''Method not implemented.'')"

definition exchangeAuthorizationCode ::
  "OAuthClientInformationFull \<Rightarrow> string \<Rightarrow> thrown + OAuthTokens" where
  "exchangeAuthorizationCode client authorizationCode =
     Inl (new_Error ''Method not implemented.'')"

subsection \<open>handleCallback\<close>

record callback_result =
  redirectUrl :: string
  success :: bool
  error :: "string option"

text \<open>
  \<open>handleCallback\<close>. The session is looked up under the query's \<open>state\<close> (a value that
  is no string is the key of no entry). \<open>installer_handleCallback\<close> is the installer's
  method, a parameter: it resolves or throws. When it resolves the function ends
  without a \<open>return\<close>, so the promise resolves to \<open>undefined\<close> (\<open>None\<close>).
\<close>

definition handleCallback ::
  "(Request \<Rightarrow> thrown + unit) \<Rightarrow> Request \<Rightarrow> provider_state
     \<Rightarrow> callback_result option \<times> provider_state" where
  "handleCallback installer_handleCallback req st =
     (case (case query_state req of QString s \<Rightarrow> getSessionData s st
            | QUndefined \<Rightarrow> None | QOther \<Rightarrow> None) of
        None \<Rightarrow>
          (Some \<lparr>redirectUrl = [], success = False, error = Some ''Invalid state parameter''\<rparr>,
           st)
      | Some sessionData \<Rightarrow>
          (let st1 = st\<lparr>effects := effects st @ [Installer_handleCallback req]\<rparr> in
           case installer_handleCallback req of
             Inr u \<Rightarrow> (None, st1)
           | Inl err \<Rightarrow>
               (Some \<lparr>redirectUrl = [], success = False,
                      error = Some ''Failed to handle callback''\<rparr>,
                console_error ''Error handling callback:'' err st1)))"

section \<open>The tool-call handler\<close>

text \<open>
  The parameters of a tool call that the handler reads: the tool's name, the
  \<open>tenantId\<close> argument (\<open>arguments = None\<close>: no arguments object; \<open>Some None\<close>: no
  \<open>tenantId\<close> in it) and the token of the request context.
\<close>

record CallToolRequest =
  tool_name :: string
  arguments :: "string option option"
  context_token :: "string option"

datatype content = Text_content string

record tenant_configuration =
  tenantId :: string
  slackToken :: string

definition exampleTenantConfiguration :: "tenant_configuration list" where
  "exampleTenantConfiguration =
     [\<lparr>tenantId = ''Bogdan'', slackToken = []\<rparr>, \<lparr>tenantId = ''Omer'', slackToken = []\<rparr>]"

text \<open>\<open>error instanceof Error ? error.message : "Unknown error occurred"\<close>.\<close>

definition errorMessage :: "thrown \<Rightarrow> string" where
  "errorMessage err = (case message err of Some m \<Rightarrow> m | None \<Rightarrow> ''Unknown error occurred'')"

text \<open>
  The \<open>try\<close> block of the channels tool. \<open>conversations_list\<close> is the Slack client's
  call, a parameter: given the token it throws, or returns the channels already
  serialised, or returns none.
\<close>

definition getSlackChannels ::
  "(string \<Rightarrow> thrown + string option) \<Rightarrow> CallToolRequest \<Rightarrow> thrown + string" where
  "getSlackChannels conversations_list request =
     (case arguments request of
        None \<Rightarrow> Inl (new_Error ''Tenant ID is required'')
      | Some None \<Rightarrow> Inl (new_Error ''Tenant ID is required'')
      | Some (Some t) \<Rightarrow>
          if t = [] then Inl (new_Error ''Tenant ID is required'')
          else
            (case map_option slackToken (find (\<lambda>config. tenantId config = t) exampleTenantConfiguration) of
               None \<Rightarrow> Inl (new_Error (''Slack token not found for tenant ID: '' @ t))
             | Some tok \<Rightarrow>
                 if tok = [] then Inl (new_Error (''Slack token not found for tenant ID: '' @ t))
                 else
                   (case conversations_list tok of
                      Inl err \<Rightarrow> Inl err
                    | Inr None \<Rightarrow> Inl (new_Error ''No channels found'')
                    | Inr (Some result) \<Rightarrow> Inr result)))"

definition user_details_text :: string where
  "user_details_text =
     ''User Details:'' @ [CHR 0x0A] @
     ''                Name: asdfasdf'' @ [CHR 0x0A] @
     ''                Email: asdfasdf'' @ [CHR 0x0A] @
     ''                UPN: asdfsdf''"

text \<open>
  The \<open>try\<close> block of the user-details tool. \<open>getToken\<close> is the Token Store's lookup
  (\<open>tokenStore.getToken\<close>, of a module of the repository that is not among the
  sources), a parameter: it throws, or returns the token's data, or \<open>undefined\<close>
  (\<open>None\<close>) for a token it does not know.
\<close>

definition getUserDetails ::
  "(string \<Rightarrow> thrown + 'd option) \<Rightarrow> CallToolRequest \<Rightarrow> thrown + string" where
  "getUserDetails getToken request =
     (case context_token request of
        None \<Rightarrow> Inl (new_Error ''No authentication token provided'')
      | Some sessionToken \<Rightarrow>
          if sessionToken = [] then Inl (new_Error ''No authentication token provided'')
          else
            (case getToken sessionToken of
               Inl err \<Rightarrow> Inl err
             | Inr None \<Rightarrow> Inl (new_Error ''Invalid or expired session token'')
             | Inr (Some tokenData) \<Rightarrow> Inr user_details_text))"

text \<open>
  The handler of \<open>CallToolRequestSchema\<close>: \<open>Inr\<close> is the result it returns (the list is
  the result's \<open>content\<close>), \<open>Inl\<close> an error it throws to the protocol layer.
\<close>

definition callTool ::
  "(string \<Rightarrow> thrown + 'd option) \<Rightarrow> (string \<Rightarrow> thrown + string option) \<Rightarrow> CallToolRequest
     \<Rightarrow> thrown + content list" where
  "callTool getToken conversations_list request =
     (if tool_name request = ''getSlackChannels'' then
        (case getSlackChannels conversations_list request of
           Inr result \<Rightarrow> Inr [Text_content result]
         | Inl err \<Rightarrow> Inr [Text_content (''Error getting channels: '' @ errorMessage err)])
      else if tool_name request = ''getUserDetails'' then
        (case getUserDetails getToken request of
           Inr text \<Rightarrow> Inr [Text_content text]
         | Inl err \<Rightarrow> Inr [Text_content (''Error getting user details: '' @ errorMessage err)])
      else Inl (new_Error (''Unknown tool: '' @ tool_name request)))"

section \<open>Properties of the PKCE generator\<close>

lemma hex_digits_unreserved: "list_all unreserved hex_digits"
  by (simp add: hex_digits_def unreserved_def)

lemma hex_digit_unreserved: "i < 16 \<Longrightarrow> unreserved (hex_digits ! i)"
  using hex_digits_unreserved by (simp add: list_all_length hex_digits_def)

lemma unat_byte_less: "unat (b :: 8 word) < 256"
  using unsigned_less [of b, where 'a = nat] by simp

lemma byte_to_hex_unreserved: "list_all unreserved (byte_to_hex b)"
proof -
  have "unat b div 16 < 16" "unat b mod 16 < 16"
    using unat_byte_less [of b] by auto
  then show ?thesis
    by (simp add: byte_to_hex_def hex_digit_unreserved)
qed

lemma toString_hex_unreserved: "list_all unreserved (toString_hex bs)"
  by (induction bs) (simp_all add: toString_hex_def byte_to_hex_unreserved)

lemma length_toString_hex: "length (toString_hex bs) = 2 * length bs"
  by (induction bs) (simp_all add: toString_hex_def byte_to_hex_def)

lemma length_uuidv4: "length (uuidv4 rnds) = 36"
  by (simp add: uuidv4_def Let_def length_toString_hex)

lemma uuidv4_unreserved: "list_all unreserved (uuidv4 rnds)"
  by (simp add: uuidv4_def Let_def toString_hex_unreserved unreserved_def)

subsection \<open>The rewritten base64 digest is base64url without padding\<close>

text \<open>What the three \<open>replace\<close> calls do to one character.\<close>

definition url_char :: "char \<Rightarrow> string" where
  "url_char c =
     (if c = CHR ''+'' then ''-'' else if c = CHR ''/'' then ''_''
      else if c = CHR ''='' then [] else [c])"

lemma replace_chain:
  "replace_all CHR ''='' [] (replace_all CHR ''/'' ''_'' (replace_all CHR ''+'' ''-'' s))
     = concat (map url_char s)"
  by (induction s) (simp_all add: replace_all_def url_char_def)

lemma url_alphabet_pointwise:
  "list_all2 (\<lambda>c d. url_char c = [d]) base64_alphabet base64url_alphabet"
  by (simp add: base64_alphabet_def base64url_alphabet_def url_char_def)

lemma url_char_alphabet:
  "i < 64 \<Longrightarrow> url_char (base64_alphabet ! i) = [base64url_alphabet ! i]"
  using url_alphabet_pointwise
  by (simp add: list_all2_conv_all_nth base64_alphabet_def)

lemma sextets_less: "list_all (\<lambda>i. i < 64) (sextets a b c)"
  using unat_byte_less [of a] unat_byte_less [of b] unat_byte_less [of c]
  by (simp add: sextets_def) arith

lemma url_chars_of_sextets:
  "list_all (\<lambda>i. i < 64) ns \<Longrightarrow>
   concat (map (url_char \<circ> (!) base64_alphabet) ns) = map ((!) base64url_alphabet) ns"
  by (induction ns) (simp_all add: url_char_alphabet)

lemma list_all_take: "list_all P xs \<Longrightarrow> list_all P (take n xs)"
  by (auto simp: list_all_iff dest: in_set_takeD)

lemma url_char_pad: "url_char CHR ''='' = []"
  by (simp add: url_char_def)

lemma base64_to_url: "concat (map url_char (base64 bs)) = base64url_nopad bs"
proof (induction bs rule: base64.induct)
  case (1 a b c rest)
  then show ?case
    by (simp add: url_chars_of_sextets [OF sextets_less])
next
  case (2 a b)
  show ?case
    by (simp add: url_chars_of_sextets [OF list_all_take [OF sextets_less]] url_char_pad)
next
  case (3 a)
  show ?case
    by (simp add: url_chars_of_sextets [OF list_all_take [OF sextets_less]] url_char_pad)
next
  case 4
  show ?case by simp
qed

text \<open>
  Claim C4. Every pair \<open>generatePkce\<close> returns has as its challenge the base64url
  encoding without padding of the SHA-256 digest of its verifier; the verifier has
  between 43 and 128 characters (it has 108), all of them unreserved; and recomputing
  the challenge from the verifier by the fixed S256 transform gives the challenge back.
\<close>

theorem generatePkce_S256:
  "challenge (generatePkce sha256 r1 r2 r3)
     = base64url_nopad (sha256 (verifier (generatePkce sha256 r1 r2 r3)))
   \<and> 43 \<le> length (verifier (generatePkce sha256 r1 r2 r3))
   \<and> length (verifier (generatePkce sha256 r1 r2 r3)) \<le> 128
   \<and> list_all unreserved (verifier (generatePkce sha256 r1 r2 r3))
   \<and> S256 sha256 (verifier (generatePkce sha256 r1 r2 r3))
       = challenge (generatePkce sha256 r1 r2 r3)"
proof -
  let ?p = "generatePkce sha256 r1 r2 r3"
  have v: "verifier ?p = uuidv4 r1 @ uuidv4 r2 @ uuidv4 r3"
    by (simp add: generatePkce_def Let_def)
  have c: "challenge ?p = base64url_nopad (sha256 (verifier ?p))"
    by (simp add: generatePkce_def Let_def replace_chain base64_to_url)
  have l: "length (verifier ?p) = 108"
    by (simp add: v length_uuidv4)
  have u: "list_all unreserved (verifier ?p)"
    by (simp add: v uuidv4_unreserved)
  from c l u show ?thesis
    by (simp add: S256_def)
qed

subsection \<open>The encoders on known inputs\<close>

lemma base64_examples:
  "base64 [0x4d, 0x61, 0x6e] = ''TWFu''"
  "base64 [0x4d, 0x61] = ''TWE=''"
  "base64 [0xfb, 0xff] = ''+/8=''"
  "base64url_nopad [0xfb, 0xff] = ''-_8''"
  by (simp_all add: sextets_def base64_alphabet_def base64url_alphabet_def)

lemma uuidv4_example:
  "uuidv4 (\<lambda>i. 0xff) = ''ffffffff-ffff-4fff-bfff-ffffffffffff''"
  by (simp add: uuidv4_def toString_hex_def byte_to_hex_def hex_digits_def)

section \<open>Properties of the authorization provider\<close>

subsection \<open>authorize\<close>

lemma randomBytes_hex_length: "length (randomBytes_hex rnd n) = 2 * n"
  by (simp add: randomBytes_hex_def length_toString_hex)

lemma randomBytes_hex_nonempty: "randomBytes_hex rnd 32 \<noteq> []"
  using randomBytes_hex_length [of rnd 32] by auto

lemma authorize_stored:
  "storeSessionData (randomBytes_hex rnd 32) d st
     = Inr (st\<lparr>sessionStore := (sessionStore st)(randomBytes_hex rnd 32 \<mapsto> d)\<rparr>)"
  by (simp add: storeSessionData_def randomBytes_hex_nonempty)

text \<open>
  Claim C1 says that \<open>authorize\<close> asks the installer for the upstream URL with the
  state it generated and the client's first redirect URI, so that the upstream callback
  carries the key of the stored session. The code stores the session under the
  generated state, but the options it hands to the installer hold the scopes and the
  first redirect URI only. The theorem: the session is stored under the generated
  state; the response is decided by the installer's answer to those two-field options;
  and the response is the same whatever state was generated.
\<close>

theorem authorize_request_omits_state:
  "sessionStore (fst (authorize g sha256 r1 r2 r3 rnd client params st)) (randomBytes_hex rnd 32)
     = Some \<lparr>clientId = client_id client, state = randomBytes_hex rnd 32,
             codeVerifier = verifier (generatePkce sha256 r1 r2 r3),
             redirectUri = (case redirect_uris client of [] \<Rightarrow> None | u # us \<Rightarrow> Some u),
             originalState = param_state params,
             clientCodeChallenge = codeChallenge params,
             clientCodeChallengeMethod = ''S256''\<rparr>
   \<and> snd (authorize g sha256 r1 r2 r3 rnd client params st)
     = (case g \<lparr>scopes = [''chat:write''],
                install_redirectUri = (case redirect_uris client of [] \<Rightarrow> None | u # us \<Rightarrow> Some u)\<rparr> of
          Inr authUrl \<Rightarrow> Redirect authUrl
        | Inl err \<Rightarrow> Status_send 500 (''Failed to initialize authentication: '' @ thrown_toString err))
   \<and> snd (authorize g sha256 r1 r2 r3 rnd client params st)
     = snd (authorize g sha256 r1 r2 r3 rnd' client params st)"
  by (simp add: authorize_def Let_def authorize_stored authorize_catch_def console_error_def
      split: sum.split)

text \<open>
  Claim C7 says that when the upstream URL cannot be built the user-agent gets a
  server error and no session is left behind. The code answers with status 500, but
  the session it stored before asking for the URL stays in the store: here the
  installer fails with \<open>err\<close>, whatever the client, the parameters and the random bytes.
\<close>

theorem authorize_failure_keeps_session:
  "sessionStore (fst (authorize (\<lambda>opts. Inl err) sha256 r1 r2 r3 rnd client params st))
     (randomBytes_hex rnd 32)
     = Some \<lparr>clientId = client_id client, state = randomBytes_hex rnd 32,
             codeVerifier = verifier (generatePkce sha256 r1 r2 r3),
             redirectUri = (case redirect_uris client of [] \<Rightarrow> None | u # us \<Rightarrow> Some u),
             originalState = param_state params,
             clientCodeChallenge = codeChallenge params,
             clientCodeChallengeMethod = ''S256''\<rparr>
   \<and> snd (authorize (\<lambda>opts. Inl err) sha256 r1 r2 r3 rnd client params st)
     = Status_send 500 (''Failed to initialize authentication: '' @ thrown_toString err)"
  by (simp add: authorize_def Let_def authorize_stored authorize_catch_def console_error_def)

subsection \<open>handleCallback\<close>

text \<open>
  Claim C2 says that a callback whose state matches a stored session consumes it, so
  that a second callback with the same state fails as an unknown state does. The code
  never removes the session: after a callback for the stored state \<open>s\<close>, whether the
  installer resolves or throws, the session is still there, and a second callback with
  the same state gets the same result as the first, which is not the invalid-state
  result.
\<close>

theorem handleCallback_leaves_session:
  "sessionStore
     (snd (handleCallback h \<lparr>query_state = QString s\<rparr>
            (st\<lparr>sessionStore := (sessionStore st)(s \<mapsto> d)\<rparr>))) s = Some d
   \<and> fst (handleCallback h \<lparr>query_state = QString s\<rparr>
            (snd (handleCallback h \<lparr>query_state = QString s\<rparr>
                   (st\<lparr>sessionStore := (sessionStore st)(s \<mapsto> d)\<rparr>))))
     = fst (handleCallback h \<lparr>query_state = QString s\<rparr>
             (st\<lparr>sessionStore := (sessionStore st)(s \<mapsto> d)\<rparr>))
   \<and> fst (handleCallback h \<lparr>query_state = QString s\<rparr>
            (snd (handleCallback h \<lparr>query_state = QString s\<rparr>
                   (st\<lparr>sessionStore := (sessionStore st)(s \<mapsto> d)\<rparr>))))
     \<noteq> Some \<lparr>redirectUrl = [], success = False, error = Some ''Invalid state parameter''\<rparr>"
  by (simp add: handleCallback_def getSessionData_def Let_def console_error_def split: sum.split)

text \<open>
  Claim C3. A callback whose state is not a key of the session store fails with the
  invalid-state result (no redirect URL, \<open>success\<close> false), and nothing else happens:
  the provider's state is returned as it was, so the installer was not called, nothing
  was stored, and the result does not depend on what the installer would have done.
\<close>

theorem handleCallback_unknown_state:
  assumes "\<And>s. query_state req = QString s \<Longrightarrow> sessionStore st s = None"
  shows "handleCallback h req st
     = (Some \<lparr>redirectUrl = [], success = False, error = Some ''Invalid state parameter''\<rparr>, st)"
  using assms by (cases "query_state req") (simp_all add: handleCallback_def getSessionData_def)

theorem handleCallback_unknown_state_witness:
  "handleCallback (\<lambda>r. Inr ()) \<lparr>query_state = QString ''forged''\<rparr>
     ((constructed None)\<lparr>sessionStore :=
        [''5f3a'' \<mapsto> \<lparr>clientId = ''c1'', state = ''5f3a'', codeVerifier = ''v'',
            redirectUri = Some ''https://a/cb'', originalState = Some ''orig123'',
            clientCodeChallenge = Some ''abc'', clientCodeChallengeMethod = ''S256''\<rparr>]\<rparr>)
   = (Some \<lparr>redirectUrl = [], success = False, error = Some ''Invalid state parameter''\<rparr>,
      (constructed None)\<lparr>sessionStore :=
        [''5f3a'' \<mapsto> \<lparr>clientId = ''c1'', state = ''5f3a'', codeVerifier = ''v'',
            redirectUri = Some ''https://a/cb'', originalState = Some ''orig123'',
            clientCodeChallenge = Some ''abc'', clientCodeChallengeMethod = ''S256''\<rparr>]\<rparr>)"
  by (rule handleCallback_unknown_state) simp

subsection \<open>Code exchange\<close>

text \<open>
  Claim C8 says that \<open>exchangeAuthorizationCode\<close> checks the client's PKCE verifier
  and fails with a PKCEValidationError on a mismatch. At this client and code the call
  fails with a plain \<open>Error\<close>, whose name is not \<open>PKCEValidationError\<close>.
\<close>

theorem exchangeAuthorizationCode_no_PKCE_error:
  "exchangeAuthorizationCode \<lparr>client_id = ''c1'', redirect_uris = [''https://a/cb'']\<rparr> ''code-1''
     = Inl (ErrorObj ''Error'' ''Method not implemented.'')
   \<and> ''Error'' \<noteq> ''PKCEValidationError''"
  by (simp add: exchangeAuthorizationCode_def new_Error_def)

text \<open>
  Claim C8, amended. For every client and authorization code,
  \<open>exchangeAuthorizationCode\<close> issues no tokens: it fails with the error "Method not
  implemented."; it is given no verifier and makes no PKCE check.
\<close>

theorem exchangeAuthorizationCode_not_implemented:
  "exchangeAuthorizationCode client authorizationCode
     = Inl (ErrorObj ''Error'' ''Method not implemented.'')"
  by (simp add: exchangeAuthorizationCode_def new_Error_def)

section \<open>Properties of the client registry\<close>

subsection \<open>Saving\<close>

text \<open>
  Claim C5 says that every durable write replaces the file atomically, so that a
  write that fails or is interrupted leaves the previous file intact. The code writes
  over the file in place. Here the file holds the registry with client c1, client c2
  has been added to the Map, and the write stops after the file was opened and before
  any data reached it: the file is left empty. (The serialiser does not matter: none
  of its text is written.)
\<close>

theorem saveClientsToFile_not_atomic:
  "clientsFile
     (snd (saveClientsToFile (\<lambda>m. ''{ c1, c2 }'')
            (Write_interrupted 0 (ErrorObj ''Error'' ''ENOSPC: no space left on device, write''))
            \<lparr>clientsMap =
               [''c1'' \<mapsto> \<lparr>client_id = ''c1'', redirect_uris = [''https://a/cb'']\<rparr>,
                ''c2'' \<mapsto> \<lparr>client_id = ''c2'', redirect_uris = [''https://b/cb'']\<rparr>],
             sessionStore = Map.empty, clientsFile = Some ''{ c1 }'', effects = []\<rparr>))
   = Some []"
  by (simp add: saveClientsToFile_def fs_writeFile_def console_error_def)

text \<open>
  Claim C5, amended. Every durable write of the client registry writes the
  serialisation of the whole in-memory registry over the persisted file in place. A
  write that completes leaves exactly that serialisation in the file. A write that
  fails is logged and thrown again. Either way the in-memory registry is unchanged, so
  every registered client stays retrievable in the running process.
\<close>

theorem saveClientsToFile_in_place:
  "(fst (saveClientsToFile JSON_stringify outcome st) = Inr () \<longrightarrow>
      clientsFile (snd (saveClientsToFile JSON_stringify outcome st))
        = Some (JSON_stringify (clientsMap st)))
   \<and> (fst (saveClientsToFile JSON_stringify outcome st) = Inl err \<longrightarrow>
      effects (snd (saveClientsToFile JSON_stringify outcome st))
        = effects st @ [Console_error ''Error saving clients to file:'' err])
   \<and> clientsMap (snd (saveClientsToFile JSON_stringify outcome st)) = clientsMap st
   \<and> getClient cid (snd (saveClientsToFile JSON_stringify outcome st)) = getClient cid st"
  by (cases outcome)
    (simp_all add: saveClientsToFile_def fs_writeFile_def console_error_def getClient_def)

theorem saveClientsToFile_in_place_witness:
  "clientsFile (snd (saveClientsToFile (\<lambda>m. ''{ c1 }'') Write_completes (constructed None)))
     = Some ''{ c1 }''
   \<and> effects (snd (saveClientsToFile (\<lambda>m. ''{ c1 }'')
         (Write_interrupted 3 (ErrorObj ''Error'' ''EIO: i/o error, write''))
         (constructed None)))
      = [Console_error ''Error saving clients to file:'' (ErrorObj ''Error'' ''EIO: i/o error, write'')]"
proof -
  have ok: "fst (saveClientsToFile (\<lambda>m. ''{ c1 }'') Write_completes (constructed None)) = Inr ()"
    by (simp add: saveClientsToFile_def fs_writeFile_def)
  have failed: "fst (saveClientsToFile (\<lambda>m. ''{ c1 }'')
         (Write_interrupted 3 (ErrorObj ''Error'' ''EIO: i/o error, write''))
         (constructed None)) = Inl (ErrorObj ''Error'' ''EIO: i/o error, write'')"
    by (simp add: saveClientsToFile_def fs_writeFile_def)
  show ?thesis
    using ok failed
      saveClientsToFile_in_place [where JSON_stringify = "\<lambda>m. ''{ c1 }''"
        and outcome = Write_completes and st = "constructed None"]
      saveClientsToFile_in_place [where JSON_stringify = "\<lambda>m. ''{ c1 }''"
        and outcome = "Write_interrupted 3 (ErrorObj ''Error'' ''EIO: i/o error, write'')"
        and st = "constructed None"
        and err = "ErrorObj ''Error'' ''EIO: i/o error, write''"]
    by (simp add: constructed_def)
qed

text \<open>
  Registration itself succeeds in memory whatever happens to the write: the client is
  returned and retrievable, and the other clients are untouched.
\<close>

lemma registerClient_memory:
  "fst (registerClient JSON_stringify outcome client st) = client
   \<and> getClient (client_id client) (snd (registerClient JSON_stringify outcome client st))
       = Some client
   \<and> (cid \<noteq> client_id client \<longrightarrow>
        getClient cid (snd (registerClient JSON_stringify outcome client st)) = getClient cid st)"
  by (cases outcome)
    (simp_all add: registerClient_def saveClientsToFile_def fs_writeFile_def console_error_def
       getClient_def Let_def)

subsection \<open>Loading\<close>

text \<open>
  The loader, wherever it is called from: its promise always resolves; a missing file
  changes nothing and logs no error; a file whose text fails to parse is logged with
  \<open>console.error\<close> and changes nothing else.
\<close>

lemma loadClientsFromFile_resolves: "fst (loadClientsFromFile JSON_parse st) = Inr ()"
  by (simp add: loadClientsFromFile_def Let_def split: option.split sum.split)

lemma loadClientsFromFile_missing_file:
  "clientsFile st = None \<Longrightarrow> loadClientsFromFile JSON_parse st = (Inr (), st)"
  by (simp add: loadClientsFromFile_def load_catch_def new_Error_def)

lemma loadClientsFromFile_malformed:
  "clientsFile st = Some fileContent \<Longrightarrow> JSON_parse fileContent = Inl err \<Longrightarrow>
   message err \<noteq> Some ''File not found'' \<Longrightarrow>
   loadClientsFromFile JSON_parse st
     = (Inr (), console_error ''Error loading clients from file:'' err st)"
  by (simp add: loadClientsFromFile_def load_catch_def)

lemma loadClientsFromFile_malformed_example:
  "loadClientsFromFile
     (\<lambda>text. Inl (ErrorObj ''SyntaxError'' ''Unexpected token o in JSON at position 1''))
     \<lparr>clientsMap = Map.empty, sessionStore = Map.empty, clientsFile = Some ''{oops'',
      effects = []\<rparr>
   = (Inr (),
      \<lparr>clientsMap = Map.empty, sessionStore = Map.empty, clientsFile = Some ''{oops'',
       effects = [Console_error ''Error loading clients from file:''
         (ErrorObj ''SyntaxError'' ''Unexpected token o in JSON at position 1'')]\<rparr>)"
  by (simp add: loadClientsFromFile_def load_catch_def console_error_def)

text \<open>
  Claim C6 says that at startup the registry is loaded from the persisted file: an
  absent file gives an empty registry and no error, a malformed file is a fatal error
  that is surfaced. The program does not load at startup: the constructor never calls
  the loader, and nothing else does. Whatever the file holds, malformed text
  included, the provider starts with an empty registry, no client can be retrieved,
  the file is left as it is and nothing is raised or logged.
\<close>

theorem startup_ignores_file:
  "clientsMap (constructed file) = Map.empty
   \<and> getClient cid (constructed file) = None
   \<and> effects (constructed file) = []
   \<and> clientsFile (constructed file) = file
   \<and> constructed file = (constructed None)\<lparr>clientsFile := file\<rparr>"
  by (simp add: constructed_def getClient_def)

text \<open>
  What follows for the persisted clients: after a restart the first registration
  whose write completes replaces the file by the new client alone.
\<close>

lemma restart_drops_persisted_clients:
  "clientsFile (snd (registerClient JSON_stringify Write_completes client (constructed (Some prior))))
     = Some (JSON_stringify [client_id client \<mapsto> client])"
  by (simp add: registerClient_def saveClientsToFile_def fs_writeFile_def constructed_def Let_def)

text \<open>
  Claim C10. If the persisted file exists and its text fails to parse, the load
  leaves the in-memory client map exactly as it was (the Map is cleared only after
  the parse has succeeded), so every client registered in memory is still retrievable;
  the load itself returns normally.
\<close>

theorem load_parse_failure_keeps_clients:
  assumes "clientsFile st = Some fileContent" and "JSON_parse fileContent = Inl err"
  shows "fst (loadClientsFromFile JSON_parse st) = Inr ()
    \<and> clientsMap (snd (loadClientsFromFile JSON_parse st)) = clientsMap st
    \<and> getClient cid (snd (loadClientsFromFile JSON_parse st)) = getClient cid st"
  using assms
  by (simp add: loadClientsFromFile_def load_catch_def console_error_def getClient_def)

theorem load_parse_failure_keeps_clients_witness:
  "getClient ''c1''
     (snd (loadClientsFromFile
            (\<lambda>text. Inl (ErrorObj ''SyntaxError'' ''Unexpected token o in JSON at position 1''))
            \<lparr>clientsMap = [''c1'' \<mapsto> \<lparr>client_id = ''c1'', redirect_uris = [''https://a/cb'']\<rparr>],
             sessionStore = Map.empty, clientsFile = Some ''{oops'', effects = []\<rparr>))
   = Some \<lparr>client_id = ''c1'', redirect_uris = [''https://a/cb'']\<rparr>"
  using load_parse_failure_keeps_clients
    [where JSON_parse = "\<lambda>text. Inl (ErrorObj ''SyntaxError'' ''Unexpected token o in JSON at position 1'')"
      and st = "\<lparr>clientsMap = [''c1'' \<mapsto> \<lparr>client_id = ''c1'', redirect_uris = [''https://a/cb'']\<rparr>],
             sessionStore = Map.empty, clientsFile = Some ''{oops'', effects = []\<rparr>"
      and fileContent = "''{oops''"
      and err = "ErrorObj ''SyntaxError'' ''Unexpected token o in JSON at position 1''"
      and cid = "''c1''"]
  by (simp add: getClient_def)

text \<open>
  By contrast, once the parse has succeeded the Map is cleared before the entries are
  read: a file holding \<open>null\<close> empties the registry.
\<close>

lemma load_null_clears_clients:
  "clientsFile st = Some fileContent \<Longrightarrow> JSON_parse fileContent = Inr Parsed_null \<Longrightarrow>
   clientsMap (snd (loadClientsFromFile JSON_parse st)) = Map.empty"
  by (simp add: loadClientsFromFile_def Object_entries_def load_catch_def console_error_def)

section \<open>Properties of the tool-call handler\<close>

text \<open>
  Claim C9. A call of the user-details tool whose request context carries no token
  (none, or the empty string) or a token the Token Store does not know returns a
  descriptive error message as the text content of an ordinary tool result; the
  handler throws nothing.
\<close>

theorem callTool_no_token:
  assumes "tool_name request = ''getUserDetails''"
    and "context_token request = None \<or> context_token request = Some []
         \<or> (\<exists>t. context_token request = Some t \<and> getToken t = Inr None)"
  shows "callTool getToken conversations_list request
     = Inr [Text_content (''Error getting user details: '' @
         (if context_token request = None \<or> context_token request = Some []
          then ''No authentication token provided''
          else ''Invalid or expired session token''))]"
  using assms
  by (auto simp: callTool_def getUserDetails_def errorMessage_def new_Error_def)

theorem callTool_no_token_witness:
  "callTool (\<lambda>t. Inr (None :: unit option)) (\<lambda>t. Inr None)
     \<lparr>tool_name = ''getUserDetails'', arguments = None, context_token = Some ''tok-unknown''\<rparr>
   = Inr [Text_content ''Error getting user details: Invalid or expired session token'']
   \<and> callTool (\<lambda>t. Inr (None :: unit option)) (\<lambda>t. Inr None)
     \<lparr>tool_name = ''getUserDetails'', arguments = None, context_token = None\<rparr>
   = Inr [Text_content ''Error getting user details: No authentication token provided'']"
  using
    callTool_no_token [where getToken = "\<lambda>t. Inr (None :: unit option)"
      and conversations_list = "\<lambda>t. Inr None"
      and request = "\<lparr>tool_name = ''getUserDetails'', arguments = None,
                       context_token = Some ''tok-unknown''\<rparr>"]
    callTool_no_token [where getToken = "\<lambda>t. Inr (None :: unit option)"
      and conversations_list = "\<lambda>t. Inr None"
      and request = "\<lparr>tool_name = ''getUserDetails'', arguments = None,
                       context_token = None\<rparr>"]
  by simp

text \<open>The user-details tool returns a result whatever the Token Store does, a throw included.\<close>

lemma callTool_getUserDetails_returns:
  "tool_name request = ''getUserDetails'' \<Longrightarrow>
   \<exists>text. callTool getToken conversations_list request = Inr [Text_content text]"
  by (auto simp: callTool_def split: sum.split)

end
